theory Spec2Isabelle
  imports Complex_Main
begin

section \<open>Site analysis for a new distribution centre (desafio-novocd-magalu.py)\<close>

text \<open>
  The script compares candidate cities by a weighted sum of three min-max normalised
  metrics. It is modelled here as follows.
  \<^item> Python floats are modelled as exact real numbers: rounding error, infinities and
    NaN are outside the arithmetic of the model. Where pandas would carry an infinity or
    a NaN (a division by zero, a mean over no columns) the model ends the run with the
    exception that the value provokes later in the script.
  \<^item> The script has no parameters: every input is a literal. The model takes the literals
    as one record \<open>entrada\<close>, and \<open>dados\<close> is the record of the script's own literals.
  \<^item> A pandas DataFrame is a list of rows, built from the column lists of the dict literal.
  \<^item> Console output and the calls into the plotting library are events of a trace; whether
    a call into the plotting library raises is decided by the environment.
  \<^item> Text that is not ASCII in the script (city names, messages) is transliterated.
\<close>

datatype py_error =
    ValueError    \<comment> \<open>DataFrame columns of unequal length; MinMaxScaler on no rows or on an infinity\<close>
  | KeyError      \<comment> \<open>a destination without a distance column or without coordinates\<close>
  | NaNError      \<comment> \<open>line 84 on a score column that is NaN throughout\<close>
  | ChartError    \<comment> \<open>an exception raised by the plotting library\<close>

subsection \<open>The literals of the script\<close>

record pesos =
  Custo :: real
  Logistica :: real
  Consumo :: real

text \<open>
  Each dict literal that becomes a DataFrame is its \<open>'Cidade'\<close> column together with its
  value column(s); \<open>distancias\<close> has one named column for each destination.
\<close>

record entrada =
  custos_imobiliarios :: "string list \<times> real list"
  capitais_ne :: "string list"
  distancias :: "string list \<times> (string \<times> real list) list"
  potencial_consumo :: "string list \<times> real list"
  pesos :: pesos

definition pib_estados :: "(string \<times> real) list" where
  "pib_estados =
     [(''BA'', 29.0), (''PE'', 17.7), (''CE'', 15.4), (''MA'', 10.1), (''RN'', 6.8),
      (''PB'', 6.2), (''AL'', 5.5), (''PI'', 5.2), (''SE'', 4.1)]"

definition pib :: "string \<Rightarrow> real" where
  "pib uf = the (map_of pib_estados uf)"

definition dados :: entrada where
  "dados = \<lparr>
     custos_imobiliarios = ([''Recife'', ''Salvador''], [18.50, 21.00]),
     capitais_ne = [''Aracaju'', ''Maceio'', ''Joao Pessoa'', ''Natal'', ''Fortaleza'',
                    ''Teresina'', ''Sao Luis''],
     distancias = ([''Recife'', ''Salvador''],
       [(''Aracaju'', [503, 321]),
        (''Maceio'', [257, 580]),
        (''Joao Pessoa'', [120, 933]),
        (''Natal'', [290, 1101]),
        (''Fortaleza'', [754, 1200]),
        (''Teresina'', [1138, 1145]),
        (''Sao Luis'', [1586, 1577])]),
     potencial_consumo = ([''Recife'', ''Salvador''],
       [pib ''PE'' + pib ''PB'' + pib ''RN'' + pib ''CE'' + pib ''AL'',
        pib ''BA'' + pib ''SE'' + pib ''AL'' + pib ''PE'']),
     pesos = \<lparr>Custo = 0.30, Logistica = 0.40, Consumo = 0.30\<rparr>
   \<rparr>"

subsection \<open>DataFrames\<close>

text \<open>\<open>pd.DataFrame(d)\<close> raises ValueError unless all columns have the same length.\<close>

definition DataFrame :: "string list \<times> 'a list \<Rightarrow> py_error + (string \<times> 'a) list" where
  "DataFrame d =
     (case d of (cidades, valores) \<Rightarrow>
        if length valores = length cidades then Inr (zip cidades valores) else Inl ValueError)"

text \<open>
  The frame of distances keeps its named columns: a column is read and assigned by name
  in the loop of lines 55-56.
\<close>

record df_colunas =
  Cidade_col :: "string list"
  colunas :: "string \<rightharpoonup> real list"

definition DataFrame_colunas ::
  "string list \<times> (string \<times> real list) list \<Rightarrow> py_error + df_colunas" where
  "DataFrame_colunas d =
     (case d of (cidades, cols) \<Rightarrow>
        if list_all (\<lambda>(nome, col). length col = length cidades) cols
        then Inr \<lparr>Cidade_col = cidades, colunas = map_of cols\<rparr>
        else Inl ValueError)"

text \<open>
  Lines 55-56: \<open>for capital in capitais_ne: df_tempos[capital] = df_tempos[capital] / 60\<close>.
  Reading a column that does not exist raises KeyError. The named columns are the
  distance columns; \<open>'Cidade'\<close> is taken not to name a destination.
\<close>

fun converter_horas :: "string list \<Rightarrow> (string \<rightharpoonup> real list) \<Rightarrow> py_error + (string \<rightharpoonup> real list)" where
  "converter_horas [] m = Inr m"
| "converter_horas (capital # resto) m =
     (case m capital of
        None \<Rightarrow> Inl KeyError
      | Some col \<Rightarrow> converter_horas resto (m(capital \<mapsto> map (\<lambda>d. d / 60) col)))"

text \<open>
  Line 57: \<open>df_tempos[capitais_ne].mean(axis=1)\<close>, the mean of each row over the
  selected columns (a column named twice is selected twice). Over no columns pandas gives
  NaN; the caller treats that case apart.
\<close>

definition mean_axis1 :: "nat \<Rightarrow> real list list \<Rightarrow> real list" where
  "mean_axis1 n cols =
     map (\<lambda>i. sum_list (map (\<lambda>col. col ! i) cols) / real (length cols)) [0..<n]"

definition Tempo_Medio_Entrega_col :: "string list \<Rightarrow> df_colunas \<Rightarrow> py_error + (string \<times> real) list" where
  "Tempo_Medio_Entrega_col capitais df_distancias =
     (case converter_horas capitais (colunas df_distancias) of
        Inl err \<Rightarrow> Inl err
      | Inr m \<Rightarrow>
          Inr (zip (Cidade_col df_distancias)
                 (mean_axis1 (length (Cidade_col df_distancias))
                    (map (\<lambda>capital. the (m capital)) capitais))))"

text \<open>
  \<open>pd.merge(left, right, on='Cidade')\<close>: the inner join on the key, in the order of the
  left keys, each left row paired with every right row of the same key.
\<close>

definition merge :: "(string \<times> 'a) list \<Rightarrow> (string \<times> 'b) list \<Rightarrow> (string \<times> 'a \<times> 'b) list" where
  "merge left right =
     concat (map (\<lambda>(k, a). map (\<lambda>(k', b). (k, a, b)) (filter (\<lambda>(k', b). k' = k) right)) left)"

subsection \<open>MinMaxScaler\<close>

text \<open>
  Modelled from the spec: \<open>sklearn.preprocessing.MinMaxScaler\<close> is a library class, not
  part of the repository. The spec gives \<open>normalized = (value - min) / (max - min)\<close> over
  all cities. The model follows the library's documented computation with the default
  feature range (0, 1): \<open>scale_ = (1 - 0) / (data_max - data_min)\<close>,
  \<open>min_ = 0 - data_min * scale_\<close>, \<open>X_scaled = X * scale_ + min_\<close>, where a range of
  zero is replaced by one before dividing (the handling of constant features).
\<close>

fun data_min :: "real list \<Rightarrow> real" where
  "data_min (x # xs) = fold min xs x"

fun data_max :: "real list \<Rightarrow> real" where
  "data_max (x # xs) = fold max xs x"

text \<open>
  Modelled from the spec: the library's handling of a constant column, outside the
  repository. The spec leaves the value for \<open>max = min\<close> open; the library replaces a
  range of zero by one before dividing.
\<close>

definition handle_zeros_in_scale :: "real \<Rightarrow> real" where
  "handle_zeros_in_scale s = (if s = 0 then 1 else s)"

text \<open>The fitted attributes \<open>scale_\<close> and \<open>min_\<close> of the library class.\<close>

record MinMaxScaler =
  attr_scale :: real
  attr_min :: real

text \<open>
  Modelled from the spec: \<open>MinMaxScaler.fit\<close>, outside the repository; minimum, maximum
  and range of the column, and from them the two fitted attributes.
\<close>

definition fit :: "real list \<Rightarrow> MinMaxScaler" where
  "fit X =
     (let data_range = data_max X - data_min X;
          s = (1 - 0) / handle_zeros_in_scale data_range
      in \<lparr>attr_scale = s, attr_min = 0 - data_min X * s\<rparr>)"

text \<open>
  Modelled from the spec: \<open>MinMaxScaler.transform\<close>, outside the repository; with the
  fitted attributes it is \<open>(value - min) / (max - min)\<close> when the range is not zero.
\<close>

definition transform :: "MinMaxScaler \<Rightarrow> real \<Rightarrow> real" where
  "transform scaler x = x * attr_scale scaler + attr_min scaler"

subsection \<open>The analysis frame\<close>

record linha =
  Cidade :: string
  Custo_m2_Aluguel :: real
  Tempo_Medio_Entrega :: real
  Potencial_PIB_Vizinhos :: real
  Inverso_Custo :: real
  Inverso_Tempo_Medio :: real
  Score_Custo :: real
  Score_Logistica :: real
  Score_Consumo :: real
  Pontuacao_Final :: real

text \<open>Lines 65-66: the two inverted columns.\<close>

definition inverter :: "string \<times> (real \<times> real) \<times> real \<Rightarrow> string \<times> (real \<times> real \<times> real) \<times> (real \<times> real)" where
  "inverter r =
     (case r of (cidade, (custo, tempo), potencial) \<Rightarrow>
        (cidade, (custo, tempo, potencial), (1 / custo, 1 / tempo)))"

text \<open>
  Lines 68-79: the scaler is fitted on each of the three columns over all rows, every row
  is transformed, and the weighted sum is taken.
\<close>

definition pontuar :: "pesos \<Rightarrow> (string \<times> (real \<times> real \<times> real) \<times> (real \<times> real)) list \<Rightarrow> linha list" where
  "pontuar w df =
     (let scaler_custo = fit (map (\<lambda>(cidade, brutos, (ic, it)). ic) df);
          scaler_logistica = fit (map (\<lambda>(cidade, brutos, (ic, it)). it) df);
          scaler_consumo = fit (map (\<lambda>(cidade, (custo, tempo, potencial), inversos). potencial) df)
      in map (\<lambda>(cidade, (custo, tempo, potencial), (ic, it)).
           let sc = transform scaler_custo ic;
               sl = transform scaler_logistica it;
               sp = transform scaler_consumo potencial
           in \<lparr>Cidade = cidade, Custo_m2_Aluguel = custo, Tempo_Medio_Entrega = tempo,
               Potencial_PIB_Vizinhos = potencial, Inverso_Custo = ic,
               Inverso_Tempo_Medio = it, Score_Custo = sc, Score_Logistica = sl,
               Score_Consumo = sp,
               Pontuacao_Final = sc * Custo w + sl * Logistica w + sp * Consumo w\<rparr>) df)"

text \<open>
  Line 84: \<open>idxmax\<close> is the position of the first occurrence of the maximum: the scan
  replaces the best position only by a strictly greater value.
\<close>

fun idxmax_scan :: "real list \<Rightarrow> nat \<Rightarrow> nat \<Rightarrow> real \<Rightarrow> nat" where
  "idxmax_scan [] i melhor v = melhor"
| "idxmax_scan (x # xs) i melhor v =
     (if v < x then idxmax_scan xs (Suc i) i x else idxmax_scan xs (Suc i) melhor v)"

definition idxmax :: "real list \<Rightarrow> py_error + nat" where
  "idxmax xs = (case xs of [] \<Rightarrow> Inl ValueError | x # resto \<Rightarrow> Inr (idxmax_scan resto 1 0 x))"

record resultado =
  df_analise :: "linha list"
  cidade_vencedora :: linha

text \<open>
  Lines 21-61: the three frames, the average delivery time and the two merges. The
  exceptions in the order in which the script meets them: the three DataFrame
  constructions (ValueError), then the loop over the destinations (KeyError).
\<close>

definition unificar :: "entrada \<Rightarrow> py_error + (string \<times> (real \<times> real) \<times> real) list" where
  "unificar e =
     (case DataFrame (custos_imobiliarios e) of
        Inl err \<Rightarrow> Inl err
      | Inr df_custos \<Rightarrow>
         (case DataFrame_colunas (distancias e) of
            Inl err \<Rightarrow> Inl err
          | Inr df_distancias \<Rightarrow>
             (case DataFrame (potencial_consumo e) of
                Inl err \<Rightarrow> Inl err
              | Inr df_consumo \<Rightarrow>
                 (case Tempo_Medio_Entrega_col (capitais_ne e) df_distancias of
                    Inl err \<Rightarrow> Inl err
                  | Inr df_tempos \<Rightarrow> Inr (merge (merge df_custos df_tempos) df_consumo)))))"

text \<open>
  Lines 65-84. The scaler raises ValueError on a frame without rows and on an infinity,
  which is what \<open>1 / 0\<close> is in pandas. With no destination every average time is NaN, and
  with it every final score: line 84 then raises.
\<close>

definition calcular :: "entrada \<Rightarrow> py_error + resultado" where
  "calcular e =
     (case unificar e of
        Inl err \<Rightarrow> Inl err
      | Inr df \<Rightarrow>
          if df = [] then Inl ValueError
          else if list_ex (\<lambda>(cidade, (custo, tempo), potencial).
                    custo = 0 \<or> (capitais_ne e \<noteq> [] \<and> tempo = 0)) df then Inl ValueError
          else if capitais_ne e = [] then Inl NaNError
          else
            (let tabela = pontuar (pesos e) (map inverter df) in
             case idxmax (map Pontuacao_Final tabela) of
               Inl err \<Rightarrow> Inl err
             | Inr i \<Rightarrow> Inr \<lparr>df_analise = tabela, cidade_vencedora = tabela ! i\<rparr>))"

subsection \<open>Console output and charts\<close>

text \<open>
  \<open>.round(2)\<close> and the format \<open>:.2f\<close> round to two decimals, a tie going to the even
  digit. A rounded number is kept as its count of hundredths.
\<close>

definition round_half_even :: "real \<Rightarrow> int" where
  "round_half_even x =
     (let f = \<lfloor>x\<rfloor>; d = x - of_int f
      in if d < 1 / 2 then f else if 1 / 2 < d then f + 1 else if even f then f else f + 1)"

definition round2 :: "real \<Rightarrow> int" where
  "round2 x = round_half_even (x * 100)"

datatype chamada = px_bar | fig_bar_show | go_Figure | add_trace | update_layout | fig_map_show

datatype evento =
    Print string
  | Print_tabela "(string \<times> int \<times> int \<times> int \<times> int) list"
  | Print_cidade string string
  | Print_f2 string int
  | Grafico chamada

text \<open>Lines 86-91.\<close>

definition console :: "resultado \<Rightarrow> evento list" where
  "console r =
     [Print ''--- Analise de Localizacao Estrategica para Novo CD Magalu ---'',
      Print (CHR 0x0A # ''Dataframe de Analise Final:''),
      Print_tabela (map (\<lambda>l. (Cidade l, round2 (Custo_m2_Aluguel l),
                               round2 (Tempo_Medio_Entrega l),
                               round2 (Potencial_PIB_Vizinhos l),
                               round2 (Pontuacao_Final l))) (df_analise r)),
      Print (CHR 0x0A # ''--- Conclusao ---''),
      Print_cidade ''A cidade com a localizacao mais estrategica e: ''
        (Cidade (cidade_vencedora r)),
      Print_f2 ''Pontuacao Final: '' (round2 (Pontuacao_Final (cidade_vencedora r)))]"

definition coords :: "(string \<times> real \<times> real) list" where
  "coords =
     [(''Recife'', (-8.0476, -34.8770)), (''Salvador'', (-12.9777, -38.5016)),
      (''Aracaju'', (-10.9167, -37.05)), (''Maceio'', (-9.6658, -35.7353)),
      (''Joao Pessoa'', (-7.1195, -34.8451)), (''Natal'', (-5.7833, -35.2)),
      (''Fortaleza'', (-3.7167, -38.5167)), (''Teresina'', (-5.0833, -42.8)),
      (''Sao Luis'', (-2.5333, -44.3))]"

text \<open>
  Lines 95-142 as the sequence of their steps: a call into the plotting library, or a
  lookup \<open>coords[nome]\<close>, which raises KeyError for a name without coordinates. The
  arguments of the calls are not modelled.
\<close>

datatype passo = Externa chamada | Consulta string

definition plano :: "string list \<Rightarrow> passo list" where
  "plano capitais =
     [Externa px_bar, Externa fig_bar_show, Externa go_Figure,
      Consulta ''Recife'', Consulta ''Salvador'', Externa add_trace]
     @ concat (map (\<lambda>capital. [Consulta capital, Externa add_trace]) capitais)
     @ concat (map (\<lambda>capital. [Consulta ''Recife'', Consulta capital, Externa add_trace]) capitais)
     @ [Externa update_layout, Externa fig_map_show]"

text \<open>
  The environment \<open>falha\<close> says of the k-th call into the plotting library whether it
  raises. The first exception ends the run.
\<close>

fun executar :: "(nat \<Rightarrow> bool) \<Rightarrow> nat \<Rightarrow> passo list \<Rightarrow> evento list \<times> py_error option" where
  "executar falha k [] = ([], None)"
| "executar falha k (Consulta nome # ps) =
     (case map_of coords nome of
        None \<Rightarrow> ([], Some KeyError)
      | Some c \<Rightarrow> executar falha k ps)"
| "executar falha k (Externa c # ps) =
     (if falha k then ([], Some ChartError)
      else (case executar falha (Suc k) ps of (evs, fim) \<Rightarrow> (Grafico c # evs, fim)))"

text \<open>
  The whole function on given literals: the trace of events and the exception that
  ended the run, if any.
\<close>

definition analisar_em :: "entrada \<Rightarrow> (nat \<Rightarrow> bool) \<Rightarrow> evento list \<times> py_error option" where
  "analisar_em e falha =
     (case calcular e of
        Inl err \<Rightarrow> ([], Some err)
      | Inr r \<Rightarrow>
          (case executar falha 0 (plano (capitais_ne e)) of
             (evs, fim) \<Rightarrow> (console r @ evs, fim)))"

definition analisar_localizacao_cd :: "(nat \<Rightarrow> bool) \<Rightarrow> evento list \<times> py_error option" where
  "analisar_localizacao_cd falha = analisar_em dados falha"

fun is_print :: "evento \<Rightarrow> bool" where
  "is_print (Grafico c) = False"
| "is_print ev = True"

subsection \<open>The formula of the specification and the reference scenario\<close>

text \<open>
  The normalisation as the specification words it:
  \<open>normalized = (value - min) / (max - min)\<close> over all cities.
\<close>

definition normalizado :: "real list \<Rightarrow> real \<Rightarrow> real" where
  "normalizado col v = (v - Min (set col)) / (Max (set col) - Min (set col))"

text \<open>The two rows of the analysis frame on the literals of the script.\<close>

definition linha_Recife :: linha where
  "linha_Recife = \<lparr>Cidade = ''Recife'', Custo_m2_Aluguel = 37 / 2,
     Tempo_Medio_Entrega = 166 / 15, Potencial_PIB_Vizinhos = 258 / 5,
     Inverso_Custo = 2 / 37, Inverso_Tempo_Medio = 15 / 166, Score_Custo = 1,
     Score_Logistica = 1, Score_Consumo = 0, Pontuacao_Final = 7 / 10\<rparr>"

definition linha_Salvador :: linha where
  "linha_Salvador = \<lparr>Cidade = ''Salvador'', Custo_m2_Aluguel = 21,
     Tempo_Medio_Entrega = 6857 / 420, Potencial_PIB_Vizinhos = 563 / 10,
     Inverso_Custo = 1 / 21, Inverso_Tempo_Medio = 420 / 6857, Score_Custo = 0,
     Score_Logistica = 0, Score_Consumo = 1, Pontuacao_Final = 3 / 10\<rparr>"

text \<open>Two environments: no call into the plotting library raises; only the n-th does.\<close>

definition sem_falhas :: "nat \<Rightarrow> bool" where
  "sem_falhas k = False"

definition falha_na :: "nat \<Rightarrow> nat \<Rightarrow> bool" where
  "falha_na n k = (k = n)"

text \<open>The console output of the run on the literals of the script.\<close>

definition saida_console :: "evento list" where
  "saida_console =
     [Print ''--- Analise de Localizacao Estrategica para Novo CD Magalu ---'',
      Print (CHR 0x0A # ''Dataframe de Analise Final:''),
      Print_tabela [(''Recife'', 1850, 1107, 5160, 70), (''Salvador'', 2100, 1633, 5630, 30)],
      Print (CHR 0x0A # ''--- Conclusao ---''),
      Print_cidade ''A cidade com a localizacao mais estrategica e: '' ''Recife'',
      Print_f2 ''Pontuacao Final: '' 70]"

section \<open>Properties\<close>

subsection \<open>The scaler\<close>

lemma data_min_Min: "X \<noteq> [] \<Longrightarrow> data_min X = Min (set X)"
proof (cases X)
  case (Cons a list)
  then show ?thesis using Min.set_eq_fold [of a list] by simp
qed simp

lemma data_max_Max: "X \<noteq> [] \<Longrightarrow> data_max X = Max (set X)"
proof (cases X)
  case (Cons a list)
  then show ?thesis using Max.set_eq_fold [of a list] by simp
qed simp

lemma transform_fit:
  "transform (fit X) x = (x - data_min X) / handle_zeros_in_scale (data_max X - data_min X)"
  by (simp add: transform_def fit_def Let_def diff_divide_distrib)

lemma transform_fit_range:
  assumes "X \<noteq> []" "x \<in> set X"
  shows "0 \<le> transform (fit X) x \<and> transform (fit X) x \<le> 1"
proof -
  have lo: "data_min X \<le> x" and hi: "x \<le> data_max X"
    using assms by (simp_all add: data_min_Min data_max_Max)
  show ?thesis
  proof (cases "data_max X - data_min X = 0")
    case True
    with lo hi have "x = data_min X" by simp
    with True show ?thesis by (simp add: transform_fit handle_zeros_in_scale_def)
  next
    case False
    with lo hi have "0 < data_max X - data_min X" by simp
    with lo hi False show ?thesis
      by (simp add: transform_fit handle_zeros_in_scale_def)
  qed
qed

lemma idxmax_scan_props:
  assumes "b < i" "i = length pre" "pre ! b = v" "\<forall>j<length pre. pre ! j \<le> v" "\<forall>j<b. pre ! j < v"
  shows "let k = idxmax_scan xs i b v in
           k < length (pre @ xs) \<and> (\<forall>j<length (pre @ xs). (pre @ xs) ! j \<le> (pre @ xs) ! k)
           \<and> (\<forall>j<k. (pre @ xs) ! j < (pre @ xs) ! k)"
  using assms
proof (induction xs arbitrary: pre i b v)
  case Nil
  then show ?case by (simp add: Let_def)
next
  case (Cons x xs)
  show ?case
  proof (cases "v < x")
    case True
    have "let k = idxmax_scan xs (Suc i) i x in
           k < length ((pre @ [x]) @ xs) \<and> (\<forall>j<length ((pre @ [x]) @ xs). ((pre @ [x]) @ xs) ! j \<le> ((pre @ [x]) @ xs) ! k)
           \<and> (\<forall>j<k. ((pre @ [x]) @ xs) ! j < ((pre @ [x]) @ xs) ! k)"
    proof (rule Cons.IH)
      show "i < Suc i" by simp
      show "Suc i = length (pre @ [x])" using Cons.prems by simp
      show "(pre @ [x]) ! i = x" using Cons.prems by (simp add: nth_append)
      show "\<forall>j<length (pre @ [x]). (pre @ [x]) ! j \<le> x"
        using Cons.prems True by (auto simp: nth_append less_Suc_eq intro: less_imp_le order_trans)
      show "\<forall>j<i. (pre @ [x]) ! j < x"
        using Cons.prems True by (auto simp: nth_append intro: le_less_trans)
    qed
    with True show ?thesis by simp
  next
    case False
    have "let k = idxmax_scan xs (Suc i) b v in
           k < length ((pre @ [x]) @ xs) \<and> (\<forall>j<length ((pre @ [x]) @ xs). ((pre @ [x]) @ xs) ! j \<le> ((pre @ [x]) @ xs) ! k)
           \<and> (\<forall>j<k. ((pre @ [x]) @ xs) ! j < ((pre @ [x]) @ xs) ! k)"
    proof (rule Cons.IH)
      show "b < Suc i" using Cons.prems by simp
      show "Suc i = length (pre @ [x])" using Cons.prems by simp
      show "(pre @ [x]) ! b = v" using Cons.prems by (simp add: nth_append)
      show "\<forall>j<length (pre @ [x]). (pre @ [x]) ! j \<le> v"
        using Cons.prems False by (auto simp: nth_append less_Suc_eq)
      show "\<forall>j<b. (pre @ [x]) ! j < v"
        using Cons.prems by (auto simp: nth_append)
    qed
    with False show ?thesis by simp
  qed
qed

lemma idxmax_first_max:
  assumes "idxmax xs = Inr k"
  shows "k < length xs \<and> (\<forall>j<length xs. xs ! j \<le> xs ! k) \<and> (\<forall>j<k. xs ! j < xs ! k)"
proof (cases xs)
  case Nil
  with assms show ?thesis by (simp add: idxmax_def)
next
  case (Cons x rest)
  with assms have k: "k = idxmax_scan rest 1 0 x" by (simp add: idxmax_def)
  have "let k = idxmax_scan rest 1 0 x in
           k < length ([x] @ rest) \<and> (\<forall>j<length ([x] @ rest). ([x] @ rest) ! j \<le> ([x] @ rest) ! k)
           \<and> (\<forall>j<k. ([x] @ rest) ! j < ([x] @ rest) ! k)"
    by (rule idxmax_scan_props) simp_all
  with k Cons show ?thesis by (simp add: Let_def)
qed

subsection \<open>The pipeline\<close>

lemma pontuar_col_custo: "map Inverso_Custo (pontuar w dfi) = map (\<lambda>(cidade, brutos, (ic, it)). ic) dfi"
  by (simp add: pontuar_def Let_def split_def comp_def)

lemma pontuar_col_tempo: "map Inverso_Tempo_Medio (pontuar w dfi) = map (\<lambda>(cidade, brutos, (ic, it)). it) dfi"
  by (simp add: pontuar_def Let_def split_def comp_def)

lemma pontuar_col_consumo:
  "map Potencial_PIB_Vizinhos (pontuar w dfi) = map (\<lambda>(cidade, (custo, tempo, potencial), inversos). potencial) dfi"
  by (simp add: pontuar_def Let_def split_def comp_def)

lemma pontuar_linha:
  assumes "l \<in> set (pontuar w dfi)"
  shows "Score_Custo l = transform (fit (map Inverso_Custo (pontuar w dfi))) (Inverso_Custo l)"
    and "Score_Logistica l = transform (fit (map Inverso_Tempo_Medio (pontuar w dfi))) (Inverso_Tempo_Medio l)"
    and "Score_Consumo l = transform (fit (map Potencial_PIB_Vizinhos (pontuar w dfi))) (Potencial_PIB_Vizinhos l)"
    and "Pontuacao_Final l = Score_Custo l * Custo w + Score_Logistica l * Logistica w + Score_Consumo l * Consumo w"
proof -
  from assms obtain x where x: "x \<in> set dfi" and l: "l = (\<lambda>(cidade, (custo, tempo, potencial), (ic, it)).
           let sc = transform (fit (map (\<lambda>(cidade, brutos, (ic, it)). ic) dfi)) ic;
               sl = transform (fit (map (\<lambda>(cidade, brutos, (ic, it)). it) dfi)) it;
               sp = transform (fit (map (\<lambda>(cidade, (custo, tempo, potencial), inversos). potencial) dfi)) potencial
           in \<lparr>Cidade = cidade, Custo_m2_Aluguel = custo, Tempo_Medio_Entrega = tempo,
               Potencial_PIB_Vizinhos = potencial, Inverso_Custo = ic,
               Inverso_Tempo_Medio = it, Score_Custo = sc, Score_Logistica = sl,
               Score_Consumo = sp,
               Pontuacao_Final = sc * Custo w + sl * Logistica w + sp * Consumo w\<rparr>) x"
    by (auto simp: pontuar_def Let_def)
  obtain cidade custo tempo potencial ic it where xe: "x = (cidade, (custo, tempo, potencial), (ic, it))"
    by (metis prod_cases3 surj_pair)
  show "Score_Custo l = transform (fit (map Inverso_Custo (pontuar w dfi))) (Inverso_Custo l)"
    by (simp add: l xe pontuar_col_custo Let_def)
  show "Score_Logistica l = transform (fit (map Inverso_Tempo_Medio (pontuar w dfi))) (Inverso_Tempo_Medio l)"
    by (simp add: l xe pontuar_col_tempo Let_def)
  show "Score_Consumo l = transform (fit (map Potencial_PIB_Vizinhos (pontuar w dfi))) (Potencial_PIB_Vizinhos l)"
    by (simp add: l xe pontuar_col_consumo Let_def)
  show "Pontuacao_Final l = Score_Custo l * Custo w + Score_Logistica l * Logistica w + Score_Consumo l * Consumo w"
    by (simp add: l xe Let_def)
qed

lemma pontuar_inverter:
  assumes "l \<in> set (pontuar w (map inverter df))"
  shows "Inverso_Custo l = 1 / Custo_m2_Aluguel l" and "Inverso_Tempo_Medio l = 1 / Tempo_Medio_Entrega l"
    and "(Cidade l, (Custo_m2_Aluguel l, Tempo_Medio_Entrega l), Potencial_PIB_Vizinhos l) \<in> set df"
  using assms by (auto simp: pontuar_def Let_def inverter_def split_def)

lemma calcular_Inr:
  assumes "calcular e = Inr r"
  obtains df i where "unificar e = Inr df" and "df \<noteq> []" and "capitais_ne e \<noteq> []"
    and "\<not> list_ex (\<lambda>(cidade, (custo, tempo), potencial). custo = 0 \<or> tempo = 0) df"
    and "df_analise r = pontuar (pesos e) (map inverter df)"
    and "idxmax (map Pontuacao_Final (df_analise r)) = Inr i"
    and "cidade_vencedora r = df_analise r ! i"
  using assms
  by (auto simp: calcular_def Let_def split: sum.splits if_splits)

lemma length_pontuar: "length (pontuar w dfi) = length dfi"
  by (simp add: pontuar_def Let_def)

subsection \<open>The run on the literals of the script\<close>

lemma calcular_dados:
  "calcular dados = Inr \<lparr>df_analise = [linha_Recife, linha_Salvador], cidade_vencedora = linha_Recife\<rparr>"
  by code_simp

subsection \<open>Rows of the analysis frame\<close>

lemma transform_fit_normalizado:
  assumes "X \<noteq> []" "Min (set X) \<noteq> Max (set X)"
  shows "transform (fit X) x = normalizado X x"
  using assms
  by (simp add: transform_fit normalizado_def data_min_Min data_max_Max handle_zeros_in_scale_def)

lemma transform_fit_constante:
  assumes "X \<noteq> []" "x \<in> set X" "Max (set X) = Min (set X)"
  shows "transform (fit X) x = 0"
proof -
  have "Min (set X) \<le> x" "x \<le> Max (set X)" using assms(1,2) by simp_all
  with assms(3) have "x = Min (set X)" by simp
  with assms show ?thesis
    by (simp add: transform_fit data_min_Min data_max_Max handle_zeros_in_scale_def)
qed

lemma transform_fit_strict_mono:
  assumes "a \<in> set X" "b \<in> set X" "b < a"
  shows "transform (fit X) b < transform (fit X) a"
proof -
  have ne: "X \<noteq> []" using assms by auto
  have "data_min X \<le> b" "a \<le> data_max X"
    using assms ne by (simp_all add: data_min_Min data_max_Max)
  with assms have pos: "0 < data_max X - data_min X" by simp
  then show ?thesis using assms
    by (simp add: transform_fit handle_zeros_in_scale_def divide_strict_right_mono)
qed

lemma df_analise_nonempty:
  assumes "calcular e = Inr r"
  shows "df_analise r \<noteq> []"
proof -
  from assms obtain df where "df \<noteq> []" "df_analise r = pontuar (pesos e) (map inverter df)"
    by (rule calcular_Inr)
  then show ?thesis using length_pontuar [of "pesos e" "map inverter df"] by auto
qed

lemma scores_da_linha:
  assumes "calcular e = Inr r" "l \<in> set (df_analise r)"
  shows "Score_Custo l = transform (fit (map Inverso_Custo (df_analise r))) (Inverso_Custo l)"
    and "Score_Logistica l = transform (fit (map Inverso_Tempo_Medio (df_analise r))) (Inverso_Tempo_Medio l)"
    and "Score_Consumo l = transform (fit (map Potencial_PIB_Vizinhos (df_analise r))) (Potencial_PIB_Vizinhos l)"
    and "Pontuacao_Final l = Score_Custo l * Custo (pesos e) + Score_Logistica l * Logistica (pesos e)
           + Score_Consumo l * Consumo (pesos e)"
proof -
  from assms(1) obtain df where d: "df_analise r = pontuar (pesos e) (map inverter df)"
    by (rule calcular_Inr)
  with assms(2) have m: "l \<in> set (pontuar (pesos e) (map inverter df))" by simp
  show "Score_Custo l = transform (fit (map Inverso_Custo (df_analise r))) (Inverso_Custo l)"
    unfolding d by (rule pontuar_linha(1) [OF m])
  show "Score_Logistica l = transform (fit (map Inverso_Tempo_Medio (df_analise r))) (Inverso_Tempo_Medio l)"
    unfolding d by (rule pontuar_linha(2) [OF m])
  show "Score_Consumo l = transform (fit (map Potencial_PIB_Vizinhos (df_analise r))) (Potencial_PIB_Vizinhos l)"
    unfolding d by (rule pontuar_linha(3) [OF m])
  show "Pontuacao_Final l = Score_Custo l * Custo (pesos e) + Score_Logistica l * Logistica (pesos e)
           + Score_Consumo l * Consumo (pesos e)"
    by (rule pontuar_linha(4) [OF m])
qed

lemma inversos_da_linha:
  assumes "calcular e = Inr r" "l \<in> set (df_analise r)"
  shows "Inverso_Custo l = 1 / Custo_m2_Aluguel l" and "Inverso_Tempo_Medio l = 1 / Tempo_Medio_Entrega l"
    and "Custo_m2_Aluguel l \<noteq> 0" and "Tempo_Medio_Entrega l \<noteq> 0"
proof -
  from assms(1) obtain df where d: "df_analise r = pontuar (pesos e) (map inverter df)"
    and z: "\<not> list_ex (\<lambda>(cidade, (custo, tempo), potencial). custo = 0 \<or> tempo = 0) df"
    by (rule calcular_Inr)
  from d assms(2) have m: "l \<in> set (pontuar (pesos e) (map inverter df))" by simp
  show "Inverso_Custo l = 1 / Custo_m2_Aluguel l" by (rule pontuar_inverter(1) [OF m])
  show "Inverso_Tempo_Medio l = 1 / Tempo_Medio_Entrega l" by (rule pontuar_inverter(2) [OF m])
  have "(Cidade l, (Custo_m2_Aluguel l, Tempo_Medio_Entrega l), Potencial_PIB_Vizinhos l) \<in> set df"
    by (rule pontuar_inverter(3) [OF m])
  with z show "Custo_m2_Aluguel l \<noteq> 0" and "Tempo_Medio_Entrega l \<noteq> 0"
    by (auto simp: list_ex_iff)
qed

lemma soma_ponderada_estrita:
  fixes a1 a2 a3 b1 b2 b3 w1 w2 w3 :: real
  assumes "b1 < a1" "b2 < a2" "b3 < a3"
    and "0 \<le> w1" "0 \<le> w2" "0 \<le> w3" "0 < w1 + w2 + w3"
  shows "b1 * w1 + b2 * w2 + b3 * w3 < a1 * w1 + a2 * w2 + a3 * w3"
proof -
  have l1: "b1 * w1 \<le> a1 * w1" using assms(1,4) by (simp add: mult_right_mono)
  have l2: "b2 * w2 \<le> a2 * w2" using assms(2,5) by (simp add: mult_right_mono)
  have l3: "b3 * w3 \<le> a3 * w3" using assms(3,6) by (simp add: mult_right_mono)
  from assms(4-7) consider "0 < w1" | "0 < w2" | "0 < w3" by linarith
  then show ?thesis
  proof cases
    case 1
    with assms(1) have "b1 * w1 < a1 * w1" by simp
    with l2 l3 show ?thesis by linarith
  next
    case 2
    with assms(2) have "b2 * w2 < a2 * w2" by simp
    with l1 l3 show ?thesis by linarith
  next
    case 3
    with assms(3) have "b3 * w3 < a3 * w3" by simp
    with l1 l2 show ?thesis by linarith
  qed
qed

subsection \<open>The average delivery time\<close>

lemma converter_horas_Inr:
  assumes "converter_horas cs m = Inr m'" and "distinct cs"
  shows "(\<forall>c\<in>set cs. \<exists>col. m c = Some col \<and> m' c = Some (map (\<lambda>d. d / 60) col))
         \<and> (\<forall>c. c \<notin> set cs \<longrightarrow> m' c = m c)"
  using assms
proof (induction cs arbitrary: m)
  case Nil
  then show ?case by simp
next
  case (Cons c cs)
  from Cons.prems(1) obtain col where col: "m c = Some col"
    and rest: "converter_horas cs (m(c \<mapsto> map (\<lambda>d. d / 60) col)) = Inr m'"
    by (auto split: option.splits)
  from Cons.prems(2) have d: "distinct cs" and nin: "c \<notin> set cs" by simp_all
  from Cons.IH [OF rest d]
  have ih1: "\<forall>x\<in>set cs. \<exists>col'. (m(c \<mapsto> map (\<lambda>d. d / 60) col)) x = Some col' \<and> m' x = Some (map (\<lambda>d. d / 60) col')"
    and ih2: "\<forall>x. x \<notin> set cs \<longrightarrow> m' x = (m(c \<mapsto> map (\<lambda>d. d / 60) col)) x"
    by blast+
  have "\<exists>col'. m x = Some col' \<and> m' x = Some (map (\<lambda>d. d / 60) col')" if "x \<in> set (c # cs)" for x
  proof (cases "x = c")
    case True
    with ih2 nin col show ?thesis by simp
  next
    case False
    with that have "x \<in> set cs" by simp
    with ih1 False show ?thesis by auto
  qed
  moreover have "m' x = m x" if "x \<notin> set (c # cs)" for x
    using that ih2 by simp
  ultimately show ?case by blast
qed

lemma mean_axis1_nth:
  "i < n \<Longrightarrow> mean_axis1 n cols ! i = sum_list (map (\<lambda>col. col ! i) cols) / real (length cols)"
  by (simp add: mean_axis1_def)

lemma length_mean_axis1: "length (mean_axis1 n cols) = n"
  by (simp add: mean_axis1_def)

lemma in_set_merge: "(k, a, b) \<in> set (merge left right) \<longleftrightarrow> (k, a) \<in> set left \<and> (k, b) \<in> set right"
  by (force simp: merge_def split_def image_iff)

lemma unificar_Inr:
  assumes "unificar e = Inr df"
  obtains df_custos df_distancias df_consumo df_tempos where
    "DataFrame (custos_imobiliarios e) = Inr df_custos"
    and "DataFrame_colunas (distancias e) = Inr df_distancias"
    and "DataFrame (potencial_consumo e) = Inr df_consumo"
    and "Tempo_Medio_Entrega_col (capitais_ne e) df_distancias = Inr df_tempos"
    and "df = merge (merge df_custos df_tempos) df_consumo"
  using assms by (auto simp: unificar_def split: sum.splits)

lemma tempo_medio_linha:
  assumes dfd: "DataFrame_colunas (cidades, cols) = Inr df_distancias"
    and tm: "Tempo_Medio_Entrega_col capitais df_distancias = Inr df_tempos"
    and dist: "distinct capitais"
    and i: "i < length df_tempos"
  shows "df_tempos ! i =
           (cidades ! i,
            (\<Sum>capital\<leftarrow>capitais. the (map_of cols capital) ! i / 60) / real (length capitais))"
proof -
  from dfd have lens: "list_all (\<lambda>(nome, col). length col = length cidades) cols"
    and dfd': "df_distancias = \<lparr>Cidade_col = cidades, colunas = map_of cols\<rparr>"
    by (auto simp: DataFrame_colunas_def split: if_splits)
  from tm dfd' obtain m where m: "converter_horas capitais (map_of cols) = Inr m"
    and t: "df_tempos = zip cidades (mean_axis1 (length cidades) (map (\<lambda>capital. the (m capital)) capitais))"
    by (auto simp: Tempo_Medio_Entrega_col_def split: sum.splits)
  from i t have il: "i < length cidades" by (simp add: length_mean_axis1)
  have each: "the (m capital) ! i = the (map_of cols capital) ! i / 60" if "capital \<in> set capitais" for capital
  proof -
    from converter_horas_Inr [OF m dist] that obtain col where
      c1: "map_of cols capital = Some col" and c2: "m capital = Some (map (\<lambda>d. d / 60) col)"
      by blast
    from c1 have "(capital, col) \<in> set cols" by (rule map_of_SomeD)
    with lens have "length col = length cidades" by (auto simp: list_all_iff)
    with il c1 c2 show ?thesis by simp
  qed
  have "map (\<lambda>capital. the (m capital) ! i) capitais
        = map (\<lambda>capital. the (map_of cols capital) ! i / 60) capitais"
    by (rule map_cong [OF refl]) (rule each)
  then have "sum_list (map (\<lambda>capital. the (m capital) ! i) capitais)
        = (\<Sum>capital\<leftarrow>capitais. the (map_of cols capital) ! i / 60)"
    by (rule arg_cong)
  moreover have "map (\<lambda>col. col ! i) (map (\<lambda>capital. the (m capital)) capitais)
        = map (\<lambda>capital. the (m capital) ! i) capitais"
    by (simp add: comp_def)
  ultimately have "sum_list (map (\<lambda>col. col ! i) (map (\<lambda>capital. the (m capital)) capitais))
        = (\<Sum>capital\<leftarrow>capitais. the (map_of cols capital) ! i / 60)"
    by (simp only:)
  with il show ?thesis
    by (simp add: t length_mean_axis1 mean_axis1_nth)
qed

subsection \<open>The trace\<close>

lemma executar_so_graficos:
  "executar falha k ps = (evs, fim) \<Longrightarrow> list_all (\<lambda>ev. \<not> is_print ev) evs"
proof (induction falha k ps arbitrary: evs fim rule: executar.induct)
  case (1 falha k)
  then show ?case by simp
next
  case (2 falha k nome ps)
  then show ?case by (auto split: option.splits)
next
  case (3 falha k c ps)
  then show ?case by (auto split: if_splits prod.splits)
qed

lemma console_so_prints: "list_all is_print (console r)"
  by (simp add: console_def)

lemma analisar_em_traco:
  assumes "calcular e = Inr r"
  shows "\<exists>evs. fst (analisar_em e falha) = console r @ evs \<and> list_all (\<lambda>ev. \<not> is_print ev) evs"
proof -
  obtain evs fim where x: "executar falha 0 (plano (capitais_ne e)) = (evs, fim)"
    by (cases "executar falha 0 (plano (capitais_ne e))")
  from executar_so_graficos [OF x] have "list_all (\<lambda>ev. \<not> is_print ev) evs" .
  moreover from assms x have "fst (analisar_em e falha) = console r @ evs"
    by (simp add: analisar_em_def)
  ultimately show ?thesis by blast
qed

lemma filter_prints:
  assumes "list_all is_print ps" "list_all (\<lambda>ev. \<not> is_print ev) evs"
  shows "filter is_print (ps @ evs) = ps"
proof -
  have "filter is_print ps = ps" using assms(1) by (simp add: list_all_iff)
  moreover have "filter is_print evs = []" using assms(2) by (simp add: list_all_iff)
  ultimately show ?thesis by simp
qed

lemma console_dados:
  "console \<lparr>df_analise = [linha_Recife, linha_Salvador], cidade_vencedora = linha_Recife\<rparr> = saida_console"
  by (simp add: console_def saida_console_def linha_Recife_def linha_Salvador_def round2_def round_half_even_def Let_def)

lemma analisar_falha_show:
  "analisar_localizacao_cd (falha_na 1) = (saida_console @ [Grafico px_bar], Some ChartError)"
proof -
  have c: "capitais_ne dados = [''Aracaju'', ''Maceio'', ''Joao Pessoa'', ''Natal'', ''Fortaleza'',
                    ''Teresina'', ''Sao Luis'']"
    by (simp add: dados_def)
  show ?thesis
    by (simp add: analisar_localizacao_cd_def analisar_em_def calcular_dados console_dados
        plano_def falha_na_def c)
qed

lemma analisar_sem_falhas:
  "analisar_localizacao_cd sem_falhas =
     (saida_console @ [Grafico px_bar, Grafico fig_bar_show, Grafico go_Figure]
        @ replicate 15 (Grafico add_trace) @ [Grafico update_layout, Grafico fig_map_show], None)"
proof -
  have c: "capitais_ne dados = [''Aracaju'', ''Maceio'', ''Joao Pessoa'', ''Natal'', ''Fortaleza'',
                    ''Teresina'', ''Sao Luis'']"
    by (simp add: dados_def)
  show ?thesis
    by (simp add: analisar_localizacao_cd_def analisar_em_def calcular_dados console_dados
        plano_def sem_falhas_def c coords_def eval_nat_numeral)
qed

subsection \<open>The weights\<close>

lemma unificar_pesos: "unificar (e\<lparr>pesos := w\<rparr>) = unificar e"
  by (simp add: unificar_def split: sum.splits)

lemma idxmax_Inr: "xs \<noteq> [] \<Longrightarrow> \<exists>i. idxmax xs = Inr i"
  by (cases xs) (simp_all add: idxmax_def)

lemma calcular_pesos:
  assumes "calcular e = Inr r"
  shows "\<exists>r'. calcular (e\<lparr>pesos := w\<rparr>) = Inr r'"
proof -
  from assms obtain df where u: "unificar e = Inr df" and ne: "df \<noteq> []"
    and cap: "capitais_ne e \<noteq> []"
    and z: "\<not> list_ex (\<lambda>(cidade, (custo, tempo), potencial). custo = 0 \<or> tempo = 0) df"
    by (rule calcular_Inr)
  have "map Pontuacao_Final (pontuar w (map inverter df)) \<noteq> []"
    using ne length_pontuar [of w "map inverter df"] by auto
  then obtain i where "idxmax (map Pontuacao_Final (pontuar w (map inverter df))) = Inr i"
    using idxmax_Inr by blast
  then show ?thesis
    using u ne cap z by (simp add: calcular_def unificar_pesos Let_def)
qed

subsection \<open>Runs on variants of the literals\<close>

lemma calcular_custos_iguais:
  "calcular (dados\<lparr>custos_imobiliarios := ([''Recife'', ''Salvador''], [18.50, 18.50])\<rparr>) =
     Inr \<lparr>df_analise =
            [linha_Recife\<lparr>Score_Custo := 0, Pontuacao_Final := 4 / 10\<rparr>,
             linha_Salvador\<lparr>Custo_m2_Aluguel := 37 / 2, Inverso_Custo := 2 / 37\<rparr>],
          cidade_vencedora = linha_Recife\<lparr>Score_Custo := 0, Pontuacao_Final := 4 / 10\<rparr>\<rparr>"
  by code_simp

lemma calcular_recife_domina:
  "calcular (dados\<lparr>potencial_consumo := ([''Recife'', ''Salvador''], [56.3, 51.6])\<rparr>) =
     Inr \<lparr>df_analise =
            [linha_Recife\<lparr>Potencial_PIB_Vizinhos := 563 / 10, Score_Consumo := 1, Pontuacao_Final := 1\<rparr>,
             linha_Salvador\<lparr>Potencial_PIB_Vizinhos := 258 / 5, Score_Consumo := 0, Pontuacao_Final := 0\<rparr>],
          cidade_vencedora =
             linha_Recife\<lparr>Potencial_PIB_Vizinhos := 563 / 10, Score_Consumo := 1, Pontuacao_Final := 1\<rparr>\<rparr>"
  by code_simp

section \<open>The claims\<close>

text \<open>
  C1. For every city of a run, that is every row of the analysis frame, the final score
  is the weighted sum of the three normalised sub-scores, each sub-score being the
  scaler's transform of the row's metric fitted over the whole column; the weights of the
  script are (0.30, 0.40, 0.30) and sum to 1.
\<close>

theorem pontuacao_final_soma_ponderada:
  assumes "calcular e = Inr r" and "l \<in> set (df_analise r)"
  shows "Pontuacao_Final l =
           Custo (pesos e) * Score_Custo l + Logistica (pesos e) * Score_Logistica l
           + Consumo (pesos e) * Score_Consumo l
         \<and> Score_Custo l = transform (fit (map Inverso_Custo (df_analise r))) (Inverso_Custo l)
         \<and> Score_Logistica l =
             transform (fit (map Inverso_Tempo_Medio (df_analise r))) (Inverso_Tempo_Medio l)
         \<and> Score_Consumo l =
             transform (fit (map Potencial_PIB_Vizinhos (df_analise r))) (Potencial_PIB_Vizinhos l)
         \<and> pesos dados = \<lparr>Custo = 0.30, Logistica = 0.40, Consumo = 0.30\<rparr>
         \<and> Custo (pesos dados) + Logistica (pesos dados) + Consumo (pesos dados) = 1"
proof -
  have "Pontuacao_Final l =
           Custo (pesos e) * Score_Custo l + Logistica (pesos e) * Score_Logistica l
           + Consumo (pesos e) * Score_Consumo l"
    using scores_da_linha(4) [OF assms] by (simp add: mult.commute)
  moreover have "pesos dados = \<lparr>Custo = 0.30, Logistica = 0.40, Consumo = 0.30\<rparr>"
    by (simp add: dados_def)
  moreover have "Custo (pesos dados) + Logistica (pesos dados) + Consumo (pesos dados) = 1"
    by (simp add: dados_def)
  ultimately show ?thesis
    using scores_da_linha(1-3) [OF assms] by blast
qed

theorem pontuacao_final_soma_ponderada_witness:
  "calcular dados = Inr \<lparr>df_analise = [linha_Recife, linha_Salvador], cidade_vencedora = linha_Recife\<rparr>
   \<and> linha_Salvador \<in> set [linha_Recife, linha_Salvador]
   \<and> Pontuacao_Final linha_Salvador =
           Custo (pesos dados) * Score_Custo linha_Salvador
           + Logistica (pesos dados) * Score_Logistica linha_Salvador
           + Consumo (pesos dados) * Score_Consumo linha_Salvador
   \<and> Pontuacao_Final linha_Salvador = 3 / 10"
  using calcular_dados pontuacao_final_soma_ponderada [OF calcular_dados, of linha_Salvador]
  by (simp add: linha_Salvador_def)

text \<open>
  C2. The winning row is a row of maximal final score, and every row before it in the
  frame has a strictly smaller final score, so that among tied maxima the first in frame
  order wins; the city named on the console is the city of that row.
\<close>

theorem vencedora_primeiro_maximo:
  assumes "calcular e = Inr r"
  shows "\<exists>i<length (df_analise r).
           cidade_vencedora r = df_analise r ! i
           \<and> (\<forall>j<length (df_analise r).
                 Pontuacao_Final (df_analise r ! j) \<le> Pontuacao_Final (df_analise r ! i))
           \<and> (\<forall>j<i. Pontuacao_Final (df_analise r ! j) < Pontuacao_Final (df_analise r ! i))
           \<and> Print_cidade ''A cidade com a localizacao mais estrategica e: ''
                (Cidade (df_analise r ! i)) \<in> set (fst (analisar_em e falha))"
proof -
  from assms obtain i where i: "idxmax (map Pontuacao_Final (df_analise r)) = Inr i"
    and v: "cidade_vencedora r = df_analise r ! i"
    by (rule calcular_Inr)
  from idxmax_first_max [OF i] have len: "i < length (df_analise r)"
    and mx: "\<forall>j<length (df_analise r). Pontuacao_Final (df_analise r ! j) \<le> Pontuacao_Final (df_analise r ! i)"
    and fst: "\<forall>j<i. Pontuacao_Final (df_analise r ! j) < Pontuacao_Final (df_analise r ! i)"
    by auto
  have "Print_cidade ''A cidade com a localizacao mais estrategica e: ''
                (Cidade (df_analise r ! i)) \<in> set (console r)"
    by (simp add: console_def v)
  then have "Print_cidade ''A cidade com a localizacao mais estrategica e: ''
                (Cidade (df_analise r ! i)) \<in> set (fst (analisar_em e falha))"
    using assms by (simp add: analisar_em_def split: prod.splits)
  with len v mx fst show ?thesis by blast
qed

theorem vencedora_primeiro_maximo_witness:
  "calcular dados = Inr \<lparr>df_analise = [linha_Recife, linha_Salvador], cidade_vencedora = linha_Recife\<rparr>
   \<and> (\<exists>i<length [linha_Recife, linha_Salvador].
           linha_Recife = [linha_Recife, linha_Salvador] ! i
           \<and> (\<forall>j<length [linha_Recife, linha_Salvador].
                 Pontuacao_Final ([linha_Recife, linha_Salvador] ! j)
                 \<le> Pontuacao_Final ([linha_Recife, linha_Salvador] ! i))
           \<and> (\<forall>j<i. Pontuacao_Final ([linha_Recife, linha_Salvador] ! j)
                        < Pontuacao_Final ([linha_Recife, linha_Salvador] ! i))
           \<and> Print_cidade ''A cidade com a localizacao mais estrategica e: ''
                (Cidade ([linha_Recife, linha_Salvador] ! i))
               \<in> set (fst (analisar_em dados (\<lambda>k. False))))"
proof -
  note h = calcular_dados
  from vencedora_primeiro_maximo [OF h, of "\<lambda>k. False"] h show ?thesis by simp
qed

text \<open>
  C3. For every city of a run with pairwise distinct destinations, the average delivery
  time in the analysis frame is the arithmetic mean, over the destinations of
  \<open>capitais_ne\<close>, of the city's distance to the destination divided by 60.
\<close>

theorem tempo_medio_media_aritmetica:
  assumes "calcular e = Inr r" and "l \<in> set (df_analise r)"
    and "distinct (capitais_ne e)"
  shows "\<exists>i<length (fst (distancias e)).
           Cidade l = fst (distancias e) ! i
           \<and> Tempo_Medio_Entrega l =
               (\<Sum>capital\<leftarrow>capitais_ne e. the (map_of (snd (distancias e)) capital) ! i / 60)
               / real (length (capitais_ne e))"
proof -
  from assms(1) obtain df where u: "unificar e = Inr df"
    and d: "df_analise r = pontuar (pesos e) (map inverter df)"
    by (rule calcular_Inr)
  from d assms(2) have "l \<in> set (pontuar (pesos e) (map inverter df))" by simp
  then have row: "(Cidade l, (Custo_m2_Aluguel l, Tempo_Medio_Entrega l), Potencial_PIB_Vizinhos l) \<in> set df"
    by (rule pontuar_inverter(3))
  from u obtain df_custos df_distancias df_consumo df_tempos where
    dfd: "DataFrame_colunas (distancias e) = Inr df_distancias"
    and tm: "Tempo_Medio_Entrega_col (capitais_ne e) df_distancias = Inr df_tempos"
    and mg: "df = merge (merge df_custos df_tempos) df_consumo"
    by (rule unificar_Inr)
  from row mg have "(Cidade l, Tempo_Medio_Entrega l) \<in> set df_tempos"
    by (simp add: in_set_merge)
  then obtain i where i: "i < length df_tempos" and at: "df_tempos ! i = (Cidade l, Tempo_Medio_Entrega l)"
    by (auto simp: in_set_conv_nth)
  from dfd have dfd2: "DataFrame_colunas (fst (distancias e), snd (distancias e)) = Inr df_distancias"
    by simp
  from dfd tm i have il: "i < length (fst (distancias e))"
    by (auto simp: DataFrame_colunas_def Tempo_Medio_Entrega_col_def length_mean_axis1
             split: if_splits sum.splits prod.splits)
  from tempo_medio_linha [OF dfd2 tm assms(3) i] at
  have "Cidade l = fst (distancias e) ! i
        \<and> Tempo_Medio_Entrega l =
               (\<Sum>capital\<leftarrow>capitais_ne e. the (map_of (snd (distancias e)) capital) ! i / 60)
               / real (length (capitais_ne e))"
    by simp
  with il show ?thesis by blast
qed

theorem tempo_medio_media_aritmetica_witness:
  "calcular dados = Inr \<lparr>df_analise = [linha_Recife, linha_Salvador], cidade_vencedora = linha_Recife\<rparr>
   \<and> distinct (capitais_ne dados)
   \<and> (\<exists>i<length (fst (distancias dados)).
           Cidade linha_Salvador = fst (distancias dados) ! i
           \<and> Tempo_Medio_Entrega linha_Salvador =
               (\<Sum>capital\<leftarrow>capitais_ne dados. the (map_of (snd (distancias dados)) capital) ! i / 60)
               / real (length (capitais_ne dados)))
   \<and> Tempo_Medio_Entrega linha_Salvador
       = (321 / 60 + 580 / 60 + 933 / 60 + 1101 / 60 + 1200 / 60 + 1145 / 60 + 1577 / 60) / 7"
proof -
  have d: "distinct (capitais_ne dados)" by (simp add: dados_def)
  have m: "linha_Salvador \<in> set (df_analise \<lparr>df_analise = [linha_Recife, linha_Salvador], cidade_vencedora = linha_Recife\<rparr>)"
    by simp
  have v: "Tempo_Medio_Entrega linha_Salvador
       = (321 / 60 + 580 / 60 + 933 / 60 + 1101 / 60 + 1200 / 60 + 1145 / 60 + 1577 / 60) / 7"
    by (simp add: linha_Salvador_def)
  from tempo_medio_media_aritmetica [OF calcular_dados m d] calcular_dados d v show ?thesis by blast
qed

text \<open>
  C4. For each of the three metrics (inverted cost, inverted average time, neighbouring
  economic output): when the column is not constant over the rows of the run, the
  sub-score of a row is \<open>(value - min) / (max - min)\<close> over the column, a row holding
  the minimum gets 0 and a row holding the maximum gets 1.
\<close>

theorem normalizacao_min_max:
  assumes "calcular e = Inr r" and "l \<in> set (df_analise r)"
    and "cc = map Inverso_Custo (df_analise r)"
    and "ct = map Inverso_Tempo_Medio (df_analise r)"
    and "cp = map Potencial_PIB_Vizinhos (df_analise r)"
  shows "(Min (set cc) \<noteq> Max (set cc) \<longrightarrow>
            Score_Custo l = normalizado cc (Inverso_Custo l)
            \<and> (Inverso_Custo l = Min (set cc) \<longrightarrow> Score_Custo l = 0)
            \<and> (Inverso_Custo l = Max (set cc) \<longrightarrow> Score_Custo l = 1))
       \<and> (Min (set ct) \<noteq> Max (set ct) \<longrightarrow>
            Score_Logistica l = normalizado ct (Inverso_Tempo_Medio l)
            \<and> (Inverso_Tempo_Medio l = Min (set ct) \<longrightarrow> Score_Logistica l = 0)
            \<and> (Inverso_Tempo_Medio l = Max (set ct) \<longrightarrow> Score_Logistica l = 1))
       \<and> (Min (set cp) \<noteq> Max (set cp) \<longrightarrow>
            Score_Consumo l = normalizado cp (Potencial_PIB_Vizinhos l)
            \<and> (Potencial_PIB_Vizinhos l = Min (set cp) \<longrightarrow> Score_Consumo l = 0)
            \<and> (Potencial_PIB_Vizinhos l = Max (set cp) \<longrightarrow> Score_Consumo l = 1))"
proof -
  have ne: "df_analise r \<noteq> []" by (rule df_analise_nonempty [OF assms(1)])
  have shape: "s = normalizado X v \<and> (v = Min (set X) \<longrightarrow> s = 0) \<and> (v = Max (set X) \<longrightarrow> s = 1)"
    if "s = transform (fit X) v" "X \<noteq> []" "Min (set X) \<noteq> Max (set X)" for s X v
  proof -
    have "s = normalizado X v" using that by (simp add: transform_fit_normalizado)
    then show ?thesis using that(3) by (auto simp: normalizado_def)
  qed
  have "Min (set cc) \<noteq> Max (set cc) \<longrightarrow>
            Score_Custo l = normalizado cc (Inverso_Custo l)
            \<and> (Inverso_Custo l = Min (set cc) \<longrightarrow> Score_Custo l = 0)
            \<and> (Inverso_Custo l = Max (set cc) \<longrightarrow> Score_Custo l = 1)"
    using shape [of "Score_Custo l" cc "Inverso_Custo l"] scores_da_linha(1) [OF assms(1,2)] ne
    by (simp add: assms(3))
  moreover have "Min (set ct) \<noteq> Max (set ct) \<longrightarrow>
            Score_Logistica l = normalizado ct (Inverso_Tempo_Medio l)
            \<and> (Inverso_Tempo_Medio l = Min (set ct) \<longrightarrow> Score_Logistica l = 0)
            \<and> (Inverso_Tempo_Medio l = Max (set ct) \<longrightarrow> Score_Logistica l = 1)"
    using shape [of "Score_Logistica l" ct "Inverso_Tempo_Medio l"] scores_da_linha(2) [OF assms(1,2)] ne
    by (simp add: assms(4))
  moreover have "Min (set cp) \<noteq> Max (set cp) \<longrightarrow>
            Score_Consumo l = normalizado cp (Potencial_PIB_Vizinhos l)
            \<and> (Potencial_PIB_Vizinhos l = Min (set cp) \<longrightarrow> Score_Consumo l = 0)
            \<and> (Potencial_PIB_Vizinhos l = Max (set cp) \<longrightarrow> Score_Consumo l = 1)"
    using shape [of "Score_Consumo l" cp "Potencial_PIB_Vizinhos l"] scores_da_linha(3) [OF assms(1,2)] ne
    by (simp add: assms(5))
  ultimately show ?thesis by blast
qed

theorem normalizacao_min_max_witness:
  "calcular dados = Inr \<lparr>df_analise = [linha_Recife, linha_Salvador], cidade_vencedora = linha_Recife\<rparr>
   \<and> linha_Recife \<in> set [linha_Recife, linha_Salvador]
   \<and> Min (set (map Inverso_Custo [linha_Recife, linha_Salvador]))
       \<noteq> Max (set (map Inverso_Custo [linha_Recife, linha_Salvador]))
   \<and> Inverso_Custo linha_Recife = Max (set (map Inverso_Custo [linha_Recife, linha_Salvador]))
   \<and> Score_Custo linha_Recife = 1
   \<and> Min (set (map Inverso_Tempo_Medio [linha_Recife, linha_Salvador]))
       \<noteq> Max (set (map Inverso_Tempo_Medio [linha_Recife, linha_Salvador]))
   \<and> Inverso_Tempo_Medio linha_Recife = Max (set (map Inverso_Tempo_Medio [linha_Recife, linha_Salvador]))
   \<and> Score_Logistica linha_Recife = 1
   \<and> Min (set (map Potencial_PIB_Vizinhos [linha_Recife, linha_Salvador]))
       \<noteq> Max (set (map Potencial_PIB_Vizinhos [linha_Recife, linha_Salvador]))
   \<and> Potencial_PIB_Vizinhos linha_Recife = Min (set (map Potencial_PIB_Vizinhos [linha_Recife, linha_Salvador]))
   \<and> Score_Consumo linha_Recife = 0"
  using calcular_dados
    normalizacao_min_max [OF calcular_dados, of linha_Recife "map Inverso_Custo [linha_Recife, linha_Salvador]"
      "map Inverso_Tempo_Medio [linha_Recife, linha_Salvador]"
      "map Potencial_PIB_Vizinhos [linha_Recife, linha_Salvador]"]
  by (simp add: linha_Recife_def linha_Salvador_def)

text \<open>
  C5. If row A has a strictly lower rent cost, a strictly lower average delivery time and
  a strictly higher neighbouring economic output than row B of the same run, both cost
  and time of A being positive as the data model requires, and the weights are not
  negative and not all zero, then the final score of A is strictly greater than that
  of B.
\<close>

theorem dominancia_estrita:
  assumes "calcular e = Inr r" and "A \<in> set (df_analise r)" and "B \<in> set (df_analise r)"
    and "0 < Custo_m2_Aluguel A" and "Custo_m2_Aluguel A < Custo_m2_Aluguel B"
    and "0 < Tempo_Medio_Entrega A" and "Tempo_Medio_Entrega A < Tempo_Medio_Entrega B"
    and "Potencial_PIB_Vizinhos B < Potencial_PIB_Vizinhos A"
    and "0 \<le> Custo (pesos e)" and "0 \<le> Logistica (pesos e)" and "0 \<le> Consumo (pesos e)"
    and "0 < Custo (pesos e) + Logistica (pesos e) + Consumo (pesos e)"
  shows "Pontuacao_Final B < Pontuacao_Final A"
proof -
  have ic: "Inverso_Custo B < Inverso_Custo A"
    using assms(4,5) inversos_da_linha(1) [OF assms(1,2)] inversos_da_linha(1) [OF assms(1,3)]
    by (simp add: frac_less2)
  have it: "Inverso_Tempo_Medio B < Inverso_Tempo_Medio A"
    using assms(6,7) inversos_da_linha(2) [OF assms(1,2)] inversos_da_linha(2) [OF assms(1,3)]
    by (simp add: frac_less2)
  have sc: "Score_Custo B < Score_Custo A"
    using transform_fit_strict_mono [of "Inverso_Custo A" "map Inverso_Custo (df_analise r)" "Inverso_Custo B"]
      ic assms(2,3) scores_da_linha(1) [OF assms(1,2)] scores_da_linha(1) [OF assms(1,3)]
    by simp
  have sl: "Score_Logistica B < Score_Logistica A"
    using transform_fit_strict_mono [of "Inverso_Tempo_Medio A" "map Inverso_Tempo_Medio (df_analise r)" "Inverso_Tempo_Medio B"]
      it assms(2,3) scores_da_linha(2) [OF assms(1,2)] scores_da_linha(2) [OF assms(1,3)]
    by simp
  have sp: "Score_Consumo B < Score_Consumo A"
    using transform_fit_strict_mono [of "Potencial_PIB_Vizinhos A" "map Potencial_PIB_Vizinhos (df_analise r)" "Potencial_PIB_Vizinhos B"]
      assms(8) assms(2,3) scores_da_linha(3) [OF assms(1,2)] scores_da_linha(3) [OF assms(1,3)]
    by simp
  show ?thesis
    using soma_ponderada_estrita [OF sc sl sp assms(9-12)]
      scores_da_linha(4) [OF assms(1,2)] scores_da_linha(4) [OF assms(1,3)]
    by simp
qed

theorem dominancia_estrita_witness:
  "calcular (dados\<lparr>potencial_consumo := ([''Recife'', ''Salvador''], [56.3, 51.6])\<rparr>) =
     Inr \<lparr>df_analise =
            [linha_Recife\<lparr>Potencial_PIB_Vizinhos := 563 / 10, Score_Consumo := 1, Pontuacao_Final := 1\<rparr>,
             linha_Salvador\<lparr>Potencial_PIB_Vizinhos := 258 / 5, Score_Consumo := 0, Pontuacao_Final := 0\<rparr>],
          cidade_vencedora =
             linha_Recife\<lparr>Potencial_PIB_Vizinhos := 563 / 10, Score_Consumo := 1, Pontuacao_Final := 1\<rparr>\<rparr>
   \<and> 0 < Custo_m2_Aluguel linha_Recife
   \<and> Custo_m2_Aluguel linha_Recife < Custo_m2_Aluguel linha_Salvador
   \<and> 0 < Tempo_Medio_Entrega linha_Recife
   \<and> Tempo_Medio_Entrega linha_Recife < Tempo_Medio_Entrega linha_Salvador
   \<and> Potencial_PIB_Vizinhos (linha_Salvador\<lparr>Potencial_PIB_Vizinhos := 258 / 5\<rparr>)
       < Potencial_PIB_Vizinhos (linha_Recife\<lparr>Potencial_PIB_Vizinhos := 563 / 10\<rparr>)
   \<and> Pontuacao_Final (linha_Salvador\<lparr>Potencial_PIB_Vizinhos := 258 / 5, Score_Consumo := 0, Pontuacao_Final := 0\<rparr>)
       < Pontuacao_Final (linha_Recife\<lparr>Potencial_PIB_Vizinhos := 563 / 10, Score_Consumo := 1, Pontuacao_Final := 1\<rparr>)"
proof -
  have "Pontuacao_Final (linha_Salvador\<lparr>Potencial_PIB_Vizinhos := 258 / 5, Score_Consumo := 0, Pontuacao_Final := 0\<rparr>)
       < Pontuacao_Final (linha_Recife\<lparr>Potencial_PIB_Vizinhos := 563 / 10, Score_Consumo := 1, Pontuacao_Final := 1\<rparr>)"
    by (rule dominancia_estrita [OF calcular_recife_domina])
       (simp_all add: linha_Recife_def linha_Salvador_def dados_def)
  then show ?thesis
    using calcular_recife_domina by (simp add: linha_Recife_def linha_Salvador_def)
qed

text \<open>
  C6, as amended. The script does not validate the weights: they are the literals
  (0.30, 0.40, 0.30), which sum to 1, and the scoring accepts any weight triple. Whenever
  the scoring succeeds on some literals it succeeds on the same literals with any other
  weights \<open>w\<close>, and every final score is the weighted sum for \<open>w\<close>.
\<close>

theorem pesos_sem_validacao:
  assumes "calcular e = Inr r"
  shows "pesos dados = \<lparr>Custo = 0.30, Logistica = 0.40, Consumo = 0.30\<rparr>
         \<and> Custo (pesos dados) + Logistica (pesos dados) + Consumo (pesos dados) = 1
         \<and> (\<exists>r'. calcular (e\<lparr>pesos := w\<rparr>) = Inr r'
               \<and> list_all (\<lambda>l. Pontuacao_Final l =
                      Custo w * Score_Custo l + Logistica w * Score_Logistica l
                      + Consumo w * Score_Consumo l) (df_analise r'))"
proof -
  from calcular_pesos [OF assms, of w] obtain r' where r': "calcular (e\<lparr>pesos := w\<rparr>) = Inr r'"
    by blast
  have "Pontuacao_Final l =
          Custo w * Score_Custo l + Logistica w * Score_Logistica l + Consumo w * Score_Consumo l"
    if "l \<in> set (df_analise r')" for l
    using scores_da_linha(4) [OF r' that] by (simp add: mult.commute)
  then have "list_all (\<lambda>l. Pontuacao_Final l =
                      Custo w * Score_Custo l + Logistica w * Score_Logistica l
                      + Consumo w * Score_Consumo l) (df_analise r')"
    by (simp add: list_all_iff)
  with r' show ?thesis by (auto simp: dados_def)
qed

theorem pesos_sem_validacao_witness:
  "calcular dados = Inr \<lparr>df_analise = [linha_Recife, linha_Salvador], cidade_vencedora = linha_Recife\<rparr>
   \<and> (\<exists>r'. calcular (dados\<lparr>pesos := \<lparr>Custo = 2, Logistica = 3, Consumo = 4\<rparr>\<rparr>) = Inr r'
               \<and> list_all (\<lambda>l. Pontuacao_Final l =
                      Custo \<lparr>Custo = 2, Logistica = 3, Consumo = 4\<rparr> * Score_Custo l
                      + Logistica \<lparr>Custo = 2, Logistica = 3, Consumo = 4\<rparr> * Score_Logistica l
                      + Consumo \<lparr>Custo = 2, Logistica = 3, Consumo = 4\<rparr> * Score_Consumo l) (df_analise r'))"
  using calcular_dados pesos_sem_validacao [OF calcular_dados, of "\<lparr>Custo = 2, Logistica = 3, Consumo = 4\<rparr>"]
  by blast

text \<open>
  C6 as stated fails: with the weights (0.5, 0.5, 0.5), which sum to 1.5, the run is not
  rejected. It scores both cities, prints the table and the conclusion with the final
  score 1.00, and draws the charts.
\<close>

theorem pesos_soma_nao_validada_counterexample:
  "Custo \<lparr>Custo = 1 / 2, Logistica = 1 / 2, Consumo = 1 / 2\<rparr>
     + Logistica \<lparr>Custo = 1 / 2, Logistica = 1 / 2, Consumo = 1 / 2\<rparr>
     + Consumo \<lparr>Custo = 1 / 2, Logistica = 1 / 2, Consumo = 1 / 2\<rparr> \<noteq> 1
   \<and> calcular (dados\<lparr>pesos := \<lparr>Custo = 1 / 2, Logistica = 1 / 2, Consumo = 1 / 2\<rparr>\<rparr>) =
       Inr \<lparr>df_analise = [linha_Recife\<lparr>Pontuacao_Final := 1\<rparr>,
                           linha_Salvador\<lparr>Pontuacao_Final := 1 / 2\<rparr>],
            cidade_vencedora = linha_Recife\<lparr>Pontuacao_Final := 1\<rparr>\<rparr>
   \<and> analisar_em (dados\<lparr>pesos := \<lparr>Custo = 1 / 2, Logistica = 1 / 2, Consumo = 1 / 2\<rparr>\<rparr>) sem_falhas =
       ([Print ''--- Analise de Localizacao Estrategica para Novo CD Magalu ---'',
         Print (CHR 0x0A # ''Dataframe de Analise Final:''),
         Print_tabela [(''Recife'', 1850, 1107, 5160, 100), (''Salvador'', 2100, 1633, 5630, 50)],
         Print (CHR 0x0A # ''--- Conclusao ---''),
         Print_cidade ''A cidade com a localizacao mais estrategica e: '' ''Recife'',
         Print_f2 ''Pontuacao Final: '' 100,
         Grafico px_bar, Grafico fig_bar_show, Grafico go_Figure]
        @ replicate 15 (Grafico add_trace) @ [Grafico update_layout, Grafico fig_map_show], None)"
proof -
  have c: "calcular (dados\<lparr>pesos := \<lparr>Custo = 1 / 2, Logistica = 1 / 2, Consumo = 1 / 2\<rparr>\<rparr>) =
       Inr \<lparr>df_analise = [linha_Recife\<lparr>Pontuacao_Final := 1\<rparr>,
                           linha_Salvador\<lparr>Pontuacao_Final := 1 / 2\<rparr>],
            cidade_vencedora = linha_Recife\<lparr>Pontuacao_Final := 1\<rparr>\<rparr>"
    by code_simp
  have k: "capitais_ne dados = [''Aracaju'', ''Maceio'', ''Joao Pessoa'', ''Natal'', ''Fortaleza'',
                    ''Teresina'', ''Sao Luis'']"
    by (simp add: dados_def)
  have t: "analisar_em (dados\<lparr>pesos := \<lparr>Custo = 1 / 2, Logistica = 1 / 2, Consumo = 1 / 2\<rparr>\<rparr>) sem_falhas =
       ([Print ''--- Analise de Localizacao Estrategica para Novo CD Magalu ---'',
         Print (CHR 0x0A # ''Dataframe de Analise Final:''),
         Print_tabela [(''Recife'', 1850, 1107, 5160, 100), (''Salvador'', 2100, 1633, 5630, 50)],
         Print (CHR 0x0A # ''--- Conclusao ---''),
         Print_cidade ''A cidade com a localizacao mais estrategica e: '' ''Recife'',
         Print_f2 ''Pontuacao Final: '' 100,
         Grafico px_bar, Grafico fig_bar_show, Grafico go_Figure]
        @ replicate 15 (Grafico add_trace) @ [Grafico update_layout, Grafico fig_map_show], None)"
    by (simp add: analisar_em_def c k console_def plano_def sem_falhas_def coords_def
          linha_Recife_def linha_Salvador_def round2_def round_half_even_def Let_def
          eval_nat_numeral)
  show ?thesis using c t by simp
qed

text \<open>
  C7. The console output of the entry point is the same in every run: whatever the
  plotting library does, the printed events are the fixed list \<open>saida_console\<close> (the
  table rounded to two decimals, the winning city Recife and its score 0.70).
\<close>

theorem saida_console_deterministica:
  "filter is_print (fst (analisar_localizacao_cd falha)) = saida_console
   \<and> filter is_print (fst (analisar_localizacao_cd falha))
       = filter is_print (fst (analisar_localizacao_cd falha'))"
proof -
  have run: "filter is_print (fst (analisar_localizacao_cd f)) = saida_console" for f
  proof -
    from analisar_em_traco [OF calcular_dados, of f] obtain evs where
      t: "fst (analisar_em dados f) = console \<lparr>df_analise = [linha_Recife, linha_Salvador], cidade_vencedora = linha_Recife\<rparr> @ evs"
      and g: "list_all (\<lambda>ev. \<not> is_print ev) evs"
      by blast
    have "filter is_print
            (console \<lparr>df_analise = [linha_Recife, linha_Salvador], cidade_vencedora = linha_Recife\<rparr> @ evs)
          = console \<lparr>df_analise = [linha_Recife, linha_Salvador], cidade_vencedora = linha_Recife\<rparr>"
      by (rule filter_prints [OF console_so_prints g])
    then show ?thesis
      unfolding analisar_localizacao_cd_def t console_dados .
  qed
  show ?thesis using run [of falha] run [of falha'] by simp
qed

text \<open>
  C8. Each of the three normalised sub-scores of every row of the analysis frame lies
  in the closed interval from 0 to 1.
\<close>

theorem scores_no_intervalo_unitario:
  assumes "calcular e = Inr r" and "l \<in> set (df_analise r)"
  shows "0 \<le> Score_Custo l \<and> Score_Custo l \<le> 1
         \<and> 0 \<le> Score_Logistica l \<and> Score_Logistica l \<le> 1
         \<and> 0 \<le> Score_Consumo l \<and> Score_Consumo l \<le> 1"
proof -
  have ne: "df_analise r \<noteq> []" by (rule df_analise_nonempty [OF assms(1)])
  have "0 \<le> transform (fit (map Inverso_Custo (df_analise r))) (Inverso_Custo l)
        \<and> transform (fit (map Inverso_Custo (df_analise r))) (Inverso_Custo l) \<le> 1"
    using ne assms(2) by (intro transform_fit_range) simp_all
  moreover have "0 \<le> transform (fit (map Inverso_Tempo_Medio (df_analise r))) (Inverso_Tempo_Medio l)
        \<and> transform (fit (map Inverso_Tempo_Medio (df_analise r))) (Inverso_Tempo_Medio l) \<le> 1"
    using ne assms(2) by (intro transform_fit_range) simp_all
  moreover have "0 \<le> transform (fit (map Potencial_PIB_Vizinhos (df_analise r))) (Potencial_PIB_Vizinhos l)
        \<and> transform (fit (map Potencial_PIB_Vizinhos (df_analise r))) (Potencial_PIB_Vizinhos l) \<le> 1"
    using ne assms(2) by (intro transform_fit_range) simp_all
  ultimately show ?thesis
    using scores_da_linha(1-3) [OF assms] by simp
qed

theorem scores_no_intervalo_unitario_witness:
  "calcular dados = Inr \<lparr>df_analise = [linha_Recife, linha_Salvador], cidade_vencedora = linha_Recife\<rparr>
   \<and> linha_Recife \<in> set [linha_Recife, linha_Salvador]
   \<and> 0 \<le> Score_Custo linha_Recife \<and> Score_Custo linha_Recife \<le> 1
   \<and> 0 \<le> Score_Logistica linha_Recife \<and> Score_Logistica linha_Recife \<le> 1
   \<and> 0 \<le> Score_Consumo linha_Recife \<and> Score_Consumo linha_Recife \<le> 1"
  using calcular_dados scores_no_intervalo_unitario [OF calcular_dados, of linha_Recife]
  by simp

text \<open>
  C9. In every run in which the scoring succeeds, the trace begins with the console
  output (among it the table and the line naming the winning city), and every call
  into the plotting library comes after it; this holds whichever of those calls raises.
\<close>

theorem console_antes_dos_graficos:
  assumes "calcular e = Inr r"
  shows "\<exists>evs. fst (analisar_em e falha) = console r @ evs
           \<and> list_all (\<lambda>ev. \<not> is_print ev) evs
           \<and> list_all is_print (console r)
           \<and> console r ! 2 = Print_tabela (map (\<lambda>l. (Cidade l, round2 (Custo_m2_Aluguel l),
                               round2 (Tempo_Medio_Entrega l),
                               round2 (Potencial_PIB_Vizinhos l),
                               round2 (Pontuacao_Final l))) (df_analise r))
           \<and> console r ! 4 = Print_cidade ''A cidade com a localizacao mais estrategica e: ''
                                (Cidade (cidade_vencedora r))"
proof -
  from analisar_em_traco [OF assms, of falha] obtain evs where
    "fst (analisar_em e falha) = console r @ evs" "list_all (\<lambda>ev. \<not> is_print ev) evs"
    by blast
  moreover have "console r ! 2 = Print_tabela (map (\<lambda>l. (Cidade l, round2 (Custo_m2_Aluguel l),
                               round2 (Tempo_Medio_Entrega l),
                               round2 (Potencial_PIB_Vizinhos l),
                               round2 (Pontuacao_Final l))) (df_analise r))"
    by (simp add: console_def)
  moreover have "console r ! 4 = Print_cidade ''A cidade com a localizacao mais estrategica e: ''
                                (Cidade (cidade_vencedora r))"
    by (simp add: console_def)
  ultimately show ?thesis using console_so_prints [of r] by blast
qed

theorem console_antes_dos_graficos_witness:
  "calcular dados = Inr \<lparr>df_analise = [linha_Recife, linha_Salvador], cidade_vencedora = linha_Recife\<rparr>
   \<and> analisar_em dados (falha_na 1) = (saida_console @ [Grafico px_bar], Some ChartError)
   \<and> console \<lparr>df_analise = [linha_Recife, linha_Salvador], cidade_vencedora = linha_Recife\<rparr> = saida_console
   \<and> (\<exists>evs. fst (analisar_em dados (falha_na 1)) = saida_console @ evs
           \<and> list_all (\<lambda>ev. \<not> is_print ev) evs
           \<and> list_all is_print saida_console)"
proof -
  from console_antes_dos_graficos [OF calcular_dados, of "falha_na 1"]
  have "\<exists>evs. fst (analisar_em dados (falha_na 1)) = saida_console @ evs
           \<and> list_all (\<lambda>ev. \<not> is_print ev) evs
           \<and> list_all is_print saida_console"
    unfolding console_dados by blast
  then show ?thesis
    using calcular_dados console_dados analisar_falha_show
    by (simp add: analisar_localizacao_cd_def)
qed

text \<open>
  C10. When all rows of a run have the same value of a metric (max = min), the
  normalised sub-score of every row for that metric is 0.
\<close>

theorem normalizacao_degenerada_zero:
  assumes "calcular e = Inr r" and "l \<in> set (df_analise r)"
    and "cc = map Inverso_Custo (df_analise r)"
    and "ct = map Inverso_Tempo_Medio (df_analise r)"
    and "cp = map Potencial_PIB_Vizinhos (df_analise r)"
  shows "(Max (set cc) = Min (set cc) \<longrightarrow> Score_Custo l = 0)
       \<and> (Max (set ct) = Min (set ct) \<longrightarrow> Score_Logistica l = 0)
       \<and> (Max (set cp) = Min (set cp) \<longrightarrow> Score_Consumo l = 0)"
proof -
  have ne: "df_analise r \<noteq> []" by (rule df_analise_nonempty [OF assms(1)])
  have "Max (set cc) = Min (set cc) \<longrightarrow> Score_Custo l = 0"
    using transform_fit_constante [of cc "Inverso_Custo l"] scores_da_linha(1) [OF assms(1,2)] ne assms(2)
    by (simp add: assms(3))
  moreover have "Max (set ct) = Min (set ct) \<longrightarrow> Score_Logistica l = 0"
    using transform_fit_constante [of ct "Inverso_Tempo_Medio l"] scores_da_linha(2) [OF assms(1,2)] ne assms(2)
    by (simp add: assms(4))
  moreover have "Max (set cp) = Min (set cp) \<longrightarrow> Score_Consumo l = 0"
    using transform_fit_constante [of cp "Potencial_PIB_Vizinhos l"] scores_da_linha(3) [OF assms(1,2)] ne assms(2)
    by (simp add: assms(5))
  ultimately show ?thesis by blast
qed

theorem normalizacao_degenerada_zero_witness:
  "calcular (dados\<lparr>custos_imobiliarios := ([''Recife'', ''Salvador''], [18.50, 18.50])\<rparr>) =
     Inr \<lparr>df_analise =
            [linha_Recife\<lparr>Score_Custo := 0, Pontuacao_Final := 4 / 10\<rparr>,
             linha_Salvador\<lparr>Custo_m2_Aluguel := 37 / 2, Inverso_Custo := 2 / 37\<rparr>],
          cidade_vencedora = linha_Recife\<lparr>Score_Custo := 0, Pontuacao_Final := 4 / 10\<rparr>\<rparr>
   \<and> Max (set (map Inverso_Custo
            [linha_Recife\<lparr>Score_Custo := 0, Pontuacao_Final := 4 / 10\<rparr>,
             linha_Salvador\<lparr>Custo_m2_Aluguel := 37 / 2, Inverso_Custo := 2 / 37\<rparr>]))
       = Min (set (map Inverso_Custo
            [linha_Recife\<lparr>Score_Custo := 0, Pontuacao_Final := 4 / 10\<rparr>,
             linha_Salvador\<lparr>Custo_m2_Aluguel := 37 / 2, Inverso_Custo := 2 / 37\<rparr>]))
   \<and> Score_Custo (linha_Salvador\<lparr>Custo_m2_Aluguel := 37 / 2, Inverso_Custo := 2 / 37\<rparr>) = 0
   \<and> Score_Custo (linha_Recife\<lparr>Score_Custo := 0, Pontuacao_Final := 4 / 10\<rparr>) = 0"
  using calcular_custos_iguais
    normalizacao_degenerada_zero [OF calcular_custos_iguais, of "linha_Salvador\<lparr>Custo_m2_Aluguel := 37 / 2, Inverso_Custo := 2 / 37\<rparr>"
      "map Inverso_Custo
            [linha_Recife\<lparr>Score_Custo := 0, Pontuacao_Final := 4 / 10\<rparr>,
             linha_Salvador\<lparr>Custo_m2_Aluguel := 37 / 2, Inverso_Custo := 2 / 37\<rparr>]"
      "map Inverso_Tempo_Medio
            [linha_Recife\<lparr>Score_Custo := 0, Pontuacao_Final := 4 / 10\<rparr>,
             linha_Salvador\<lparr>Custo_m2_Aluguel := 37 / 2, Inverso_Custo := 2 / 37\<rparr>]"
      "map Potencial_PIB_Vizinhos
            [linha_Recife\<lparr>Score_Custo := 0, Pontuacao_Final := 4 / 10\<rparr>,
             linha_Salvador\<lparr>Custo_m2_Aluguel := 37 / 2, Inverso_Custo := 2 / 37\<rparr>]"]
  by (simp add: linha_Recife_def linha_Salvador_def)

end
